theory Spec2Isabelle
  imports Complex_Main "HOL-Library.Multiset"
begin

section \<open>Data model\<close>

text \<open>
  The game of \<^verbatim>\<open>src/game\<close>: \<^verbatim>\<open>Territory.ts\<close>, \<^verbatim>\<open>GameState.ts\<close>, \<^verbatim>\<open>Game.ts\<close> and
  \<^verbatim>\<open>AIPlayer.ts\<close>.

  Numbers. A TypeScript \<^verbatim>\<open>number\<close> is an IEEE double. Unit counts start at 0 or 3 and are
  only ever assigned \<^verbatim>\<open>u + 1\<close>, \<^verbatim>\<open>1\<close>, a \<^verbatim>\<open>Math.floor\<close> or a difference and sum of such, so
  they are integers and are modelled as \<open>int\<close>. Positions, random draws and confidence
  scores are modelled as \<open>real\<close>: double arithmetic is idealised as exact arithmetic.

  Objects. A \<^verbatim>\<open>Territory\<close> object is mutated in place and compared by reference
  (\<^verbatim>\<open>===\<close>). The array \<^verbatim>\<open>Game.territories\<close> is the store; a reference to a territory is
  its index in that array, which never changes after the constructor.
\<close>

datatype Owner = Player | AI | Neutral

datatype Side = PlayerSide | AISide

record Vector3 =
  vx :: real
  vy :: real
  vz :: real

text \<open>The rendering fields \<^verbatim>\<open>mesh\<close>, \<^verbatim>\<open>textMesh\<close> and \<^verbatim>\<open>scene\<close> are left out.\<close>

record Territory =
  name :: string
  owner :: Owner
  units :: int
  selected :: bool
  position :: Vector3

record GameState =
  gameStarted :: bool
  gameOver :: bool
  winner :: "Side option"
  currentTurn :: Side
  playerUnits :: int
  aiUnits :: int
  playerTerritories :: nat
  aiTerritories :: nat

text \<open>
  The texts passed to \<^verbatim>\<open>onMessage\<close>, one constructor per template string of the source,
  carrying the values the template interpolates.
\<close>

datatype message =
    MsgSelected string int
  | MsgDeselected
  | MsgNotAdjacent
  | MsgTransferred int string string
  | MsgNotEnoughTransfer
  | MsgNotEnoughAttack
  | MsgAttacks string int string int
  | MsgAttackSuccessful string int
  | MsgAttackFailed int
  | MsgYouWin
  | MsgAIWins
  | MsgGameStarted
  | MsgTurnEnded
  | MsgAIThinking
  | MsgAIStrategy string
  | MsgAIAttacks string int string int
  | MsgAICaptured string int
  | MsgAIAttackFailed int
  | MsgAITransferred int string string

text \<open>
  The class \<^verbatim>\<open>Game\<close>. The callbacks \<^verbatim>\<open>onMessage\<close> and \<^verbatim>\<open>onStateChange\<close> are modelled
  by the logs of their calls, oldest first.
\<close>

record Game =
  territories :: "Territory list"
  selectedTerritory :: "nat option"
  gameState :: GameState
  messages :: "message list"
  stateChanges :: "GameState list"

datatype ActionType = Attack | Transfer

record AIAction =
  atype :: ActionType
  afrom :: nat
  ato :: nat
  confidence :: real

section \<open>Territory.ts\<close>

definition setOwner :: "Owner \<Rightarrow> Territory \<Rightarrow> Territory" where
  "setOwner ow t = t\<lparr>owner := ow\<rparr>"

text \<open>\<^verbatim>\<open>this.units = Math.max(0, units)\<close>\<close>

definition setUnits :: "int \<Rightarrow> Territory \<Rightarrow> Territory" where
  "setUnits n t = t\<lparr>units := max 0 n\<rparr>"

definition setSelected :: "bool \<Rightarrow> Territory \<Rightarrow> Territory" where
  "setSelected b t = t\<lparr>selected := b\<rparr>"

text \<open>
  The constructor: \<^verbatim>\<open>owner = 'neutral'\<close>, \<^verbatim>\<open>units = 0\<close>, \<^verbatim>\<open>selected = false\<close>,
  \<^verbatim>\<open>position = new THREE.Vector3(x, 0, z)\<close>.
\<close>

definition newTerritory :: "real \<Rightarrow> real \<Rightarrow> string \<Rightarrow> Territory" where
  "newTerritory x z nm =
     \<lparr>name = nm, owner = Neutral, units = 0, selected = False,
      position = \<lparr>vx = x, vy = 0, vz = z\<rparr>\<rparr>"

text \<open>
  Modelled from the spec: \<^verbatim>\<open>THREE.Vector3.distanceTo\<close> belongs to the three.js library,
  which is not part of the sources; the specification calls it the Euclidean distance
  between the two positions.
\<close>

definition distanceTo :: "Vector3 \<Rightarrow> Vector3 \<Rightarrow> real" where
  "distanceTo p q = sqrt ((vx p - vx q)\<^sup>2 + (vy p - vy q)\<^sup>2 + (vz p - vz q)\<^sup>2)"

section \<open>Game.ts: the store and the callbacks\<close>

text \<open>Method calls on the territory object referenced by index \<open>i\<close>.\<close>

definition getUnits :: "Game \<Rightarrow> nat \<Rightarrow> int" where
  "getUnits g i = units (territories g ! i)"

definition getOwner :: "Game \<Rightarrow> nat \<Rightarrow> Owner" where
  "getOwner g i = owner (territories g ! i)"

definition getName :: "Game \<Rightarrow> nat \<Rightarrow> string" where
  "getName g i = name (territories g ! i)"

definition setUnitsAt :: "nat \<Rightarrow> int \<Rightarrow> Game \<Rightarrow> Game" where
  "setUnitsAt i n g = g\<lparr>territories := (territories g)[i := setUnits n (territories g ! i)]\<rparr>"

definition setOwnerAt :: "nat \<Rightarrow> Owner \<Rightarrow> Game \<Rightarrow> Game" where
  "setOwnerAt i ow g = g\<lparr>territories := (territories g)[i := setOwner ow (territories g ! i)]\<rparr>"

definition setSelectedAt :: "nat \<Rightarrow> bool \<Rightarrow> Game \<Rightarrow> Game" where
  "setSelectedAt i b g =
     g\<lparr>territories := (territories g)[i := setSelected b (territories g ! i)]\<rparr>"

definition onMessage :: "message \<Rightarrow> Game \<Rightarrow> Game" where
  "onMessage m g = g\<lparr>messages := messages g @ [m]\<rparr>"

definition onStateChange :: "Game \<Rightarrow> Game" where
  "onStateChange g = g\<lparr>stateChanges := stateChanges g @ [gameState g]\<rparr>"

subsection \<open>isAdjacent\<close>

definition isAdjacent :: "Territory \<Rightarrow> Territory \<Rightarrow> bool" where
  "isAdjacent territory1 territory2 =
     (let pos1 = position territory1; pos2 = position territory2;
          distance = distanceTo pos1 pos2
      in distance < 7)"

subsection \<open>transferUnits\<close>

definition transferUnits :: "Game \<Rightarrow> nat \<Rightarrow> nat \<Rightarrow> Game" where
  "transferUnits g from to =
     (let unitsToTransfer = \<lfloor>real_of_int (getUnits g from) / 2\<rfloor>
      in if unitsToTransfer > 0 then
           (let g1 = setUnitsAt from (getUnits g from - unitsToTransfer) g;
                g2 = setUnitsAt to (getUnits g1 to + unitsToTransfer) g1
            in onMessage (MsgTransferred unitsToTransfer (getName g2 from) (getName g2 to)) g2)
         else onMessage MsgNotEnoughTransfer g)"

subsection \<open>attackTerritory\<close>

text \<open>
  \<open>r1\<close> and \<open>r2\<close> are the results of the first and the second call of \<^verbatim>\<open>Math.random()\<close>.
\<close>

definition attackTerritory :: "Game \<Rightarrow> nat \<Rightarrow> nat \<Rightarrow> real \<Rightarrow> real \<Rightarrow> Game" where
  "attackTerritory g attacker defender r1 r2 =
     (let attackerUnits = getUnits g attacker;
          defenderUnits = getUnits g defender
      in if attackerUnits \<le> 1 then onMessage MsgNotEnoughAttack g
         else
           (let attackStrength = \<lfloor>real_of_int (attackerUnits - 1) * (0.8 + r1 * 0.4)\<rfloor>;
                defenseStrength = \<lfloor>real_of_int defenderUnits * (0.8 + r2 * 0.4)\<rfloor>;
                g1 = onMessage (MsgAttacks (getName g attacker) attackStrength
                                  (getName g defender) defenseStrength) g
            in if attackStrength > defenseStrength then
                 (let remainingUnits =
                        \<lfloor>real_of_int (attackerUnits - 1) *
                           (real_of_int attackStrength /
                            real_of_int (attackStrength + defenseStrength))\<rfloor>;
                      g2 = setUnitsAt attacker 1 g1;
                      g3 = setOwnerAt defender Player g2;
                      g4 = setUnitsAt defender remainingUnits g3
                  in onMessage (MsgAttackSuccessful (getName g4 defender) remainingUnits) g4)
               else
                 (let attackerLosses = \<lfloor>real_of_int attackerUnits * 0.5\<rfloor>;
                      g2 = setUnitsAt attacker (max 1 (attackerUnits - attackerLosses)) g1;
                      defenderLosses = \<lfloor>real_of_int defenderUnits * 0.3\<rfloor>;
                      g3 = setUnitsAt defender (max 1 (defenderUnits - defenderLosses)) g2
                  in onMessage (MsgAttackFailed attackerLosses) g3)))"

subsection \<open>updateGameState\<close>

text \<open>
  The counting loop, with the four running counters
  \<^verbatim>\<open>(playerUnits, aiUnits, playerTerritories, aiTerritories)\<close>.
\<close>

fun countLoop :: "Territory list \<Rightarrow> int \<times> int \<times> nat \<times> nat \<Rightarrow> int \<times> int \<times> nat \<times> nat" where
  "countLoop [] acc = acc"
| "countLoop (t # ts) (pu, au, pt, ait) =
     (if owner t = Player then countLoop ts (pu + units t, au, pt + 1, ait)
      else if owner t = AI then countLoop ts (pu, au + units t, pt, ait + 1)
      else countLoop ts (pu, au, pt, ait))"

definition updateGameState :: "Game \<Rightarrow> Game" where
  "updateGameState g =
     (case countLoop (territories g) (0, 0, 0, 0) of
        (pu, au, pt, ait) \<Rightarrow>
          (let g1 = g\<lparr>gameState := (gameState g)\<lparr>playerUnits := pu, aiUnits := au,
                        playerTerritories := pt, aiTerritories := ait\<rparr>\<rparr>;
               g2 = (if ait = 0 then
                       onMessage MsgYouWin
                         (g1\<lparr>gameState := (gameState g1)\<lparr>gameOver := True,
                               winner := Some PlayerSide\<rparr>\<rparr>)
                     else if pt = 0 then
                       onMessage MsgAIWins
                         (g1\<lparr>gameState := (gameState g1)\<lparr>gameOver := True,
                               winner := Some AISide\<rparr>\<rparr>)
                     else g1)
           in onStateChange g2))"

subsection \<open>handleTerritoryClick\<close>

text \<open>
  \<open>territory\<close> is the clicked territory; \<open>r1\<close> and \<open>r2\<close> are the random draws an attack
  takes. The comparison \<^verbatim>\<open>this.selectedTerritory === territory\<close> is the comparison of the
  two references.
\<close>

definition handleTerritoryClick :: "Game \<Rightarrow> nat \<Rightarrow> real \<Rightarrow> real \<Rightarrow> Game" where
  "handleTerritoryClick g territory r1 r2 =
     (if currentTurn (gameState g) \<noteq> PlayerSide then g
      else if selectedTerritory g = None \<and> getOwner g territory = Player then
        (let g1 = g\<lparr>selectedTerritory := Some territory\<rparr>;
             g2 = setSelectedAt territory True g1
         in onMessage (MsgSelected (getName g2 territory) (getUnits g2 territory)) g2)
      else
        (case selectedTerritory g of
           None \<Rightarrow> g
         | Some sel \<Rightarrow>
             if sel = territory then
               (let g1 = setSelectedAt sel False g;
                    g2 = g1\<lparr>selectedTerritory := None\<rparr>
                in onMessage MsgDeselected g2)
             else if isAdjacent (territories g ! sel) (territories g ! territory) then
               (let g1 = (if getOwner g territory = Player then transferUnits g sel territory
                          else attackTerritory g sel territory r1 r2);
                    g2 = setSelectedAt sel False g1;
                    g3 = g2\<lparr>selectedTerritory := None\<rparr>
                in updateGameState g3)
             else onMessage MsgNotAdjacent g))"

subsection \<open>createGameBoard and the constructor\<close>

text \<open>The decimal digits of a number, as a template string prints a small index.\<close>

fun string_of_nat :: "nat \<Rightarrow> string" where
  "string_of_nat n =
     (if n < 10 then [char_of (48 + n)]
      else string_of_nat (n div 10) @ [char_of (48 + n mod 10)])"

definition gridSize :: nat where
  "gridSize = 5"

definition spacing :: real where
  "spacing = 5"

definition offset :: real where
  "offset = (real gridSize - 1) * spacing / 2"

text \<open>
  The body of the two nested loops for one cell \<open>(x, z)\<close>: the territories it pushes
  (none for the four corners, which \<^verbatim>\<open>continue\<close> skips).
\<close>

definition boardCell :: "nat \<Rightarrow> nat \<Rightarrow> Territory list" where
  "boardCell x z =
     (let posX = real x * spacing - offset;
          posZ = real z * spacing - offset
      in if (x = 0 \<and> z = 0) \<or> (x = gridSize - 1 \<and> z = gridSize - 1) \<or>
            (x = 0 \<and> z = gridSize - 1) \<or> (x = gridSize - 1 \<and> z = 0) then []
         else
           (let territory = newTerritory posX posZ
                  (''Territory ('' @ string_of_nat x @ '','' @ string_of_nat z @ '')'')
            in [if x < 2 \<and> z < 2 then setUnits 3 (setOwner Player territory)
                else if x > gridSize - 3 \<and> z > gridSize - 3 then
                  setUnits 3 (setOwner AI territory)
                else territory]))"

definition boardTerritories :: "Territory list" where
  "boardTerritories =
     concat (map (\<lambda>x. concat (map (\<lambda>z. boardCell x z) [0..<gridSize])) [0..<gridSize])"

definition createGameBoard :: "Game \<Rightarrow> Game" where
  "createGameBoard g = updateGameState (g\<lparr>territories := territories g @ boardTerritories\<rparr>)"

definition newGameState :: GameState where
  "newGameState =
     \<lparr>gameStarted = False, gameOver = False, winner = None, currentTurn = PlayerSide,
      playerUnits = 0, aiUnits = 0, playerTerritories = 0, aiTerritories = 0\<rparr>"

definition newGame :: Game where
  "newGame =
     createGameBoard
       \<lparr>territories = [], selectedTerritory = None, gameState = newGameState,
        messages = [], stateChanges = []\<rparr>"

subsection \<open>start\<close>

definition start :: "Game \<Rightarrow> Game" where
  "start g =
     (let g1 = g\<lparr>gameState := (gameState g)\<lparr>gameStarted := True, currentTurn := PlayerSide\<rparr>\<rparr>;
          g2 = updateGameState g1
      in onMessage MsgGameStarted g2)"

section \<open>AIPlayer.ts\<close>

subsection \<open>findAdjacentTerritories\<close>

text \<open>
  The territories of \<open>allTerritories\<close> adjacent to the one referenced by \<open>territory\<close>, as
  references, in the order of the array.
\<close>

definition findAdjacentTerritories :: "Territory list \<Rightarrow> nat \<Rightarrow> nat list" where
  "findAdjacentTerritories allTerritories territory =
     (let pos = position (allTerritories ! territory)
      in filter (\<lambda>t. if t = territory then False
                      else (let otherPosition = position (allTerritories ! t);
                                distance = distanceTo pos otherPosition
                            in distance < 7))
           [0..<length allTerritories])"

subsection \<open>Strings\<close>

text \<open>
  \<^verbatim>\<open>String.prototype.toLowerCase\<close> and \<^verbatim>\<open>String.prototype.includes\<close>, on strings of
  ASCII characters.
\<close>

definition lowerChar :: "char \<Rightarrow> char" where
  "lowerChar c =
     (let n = (of_char c :: nat) in if 65 \<le> n \<and> n \<le> 90 then char_of (n + 32) else c)"

definition toLowerCase :: "string \<Rightarrow> string" where
  "toLowerCase s = map lowerChar s"

fun includesStr :: "string \<Rightarrow> string \<Rightarrow> bool" where
  "includesStr [] sub = (sub = [])"
| "includesStr (c # cs) sub = (take (length sub) (c # cs) = sub \<or> includesStr cs sub)"

subsection \<open>evaluateAttack and evaluateTransfer\<close>

definition evaluateAttack :: "Territory list \<Rightarrow> nat \<Rightarrow> nat \<Rightarrow> string \<Rightarrow> real" where
  "evaluateAttack ts from to aiStrategy =
     (let attackerUnits = units (ts ! from);
          defenderUnits = units (ts ! to);
          c0 = real_of_int (attackerUnits - 1) / real_of_int (max 1 defenderUnits);
          c1 = (if owner (ts ! to) = Player then c0 * 1.5 else c0);
          adjacentToTarget = findAdjacentTerritories ts to;
          adjacentPlayerTerritories =
            length (filter (\<lambda>t. owner (ts ! t) = Player) adjacentToTarget);
          c2 = c1 + real adjacentPlayerTerritories * 0.2;
          c3 = (if includesStr (toLowerCase aiStrategy) (toLowerCase (name (ts ! to)))
                then c2 * 1.5 else c2);
          c4 = (if includesStr (toLowerCase aiStrategy) ''attack'' \<and>
                   includesStr (toLowerCase aiStrategy) ''player''
                then c3 * 1.2 else c3);
          c5 = (if includesStr (toLowerCase aiStrategy) ''defensive'' \<or>
                   includesStr (toLowerCase aiStrategy) ''defend''
                then c4 * 0.8 else c4)
      in c5)"

definition evaluateTransfer :: "Territory list \<Rightarrow> nat \<Rightarrow> nat \<Rightarrow> string \<Rightarrow> real" where
  "evaluateTransfer ts from to aiStrategy =
     (let fromUnits = units (ts ! from);
          toUnits = units (ts ! to);
          c0 = real_of_int (fromUnits - toUnits) / real_of_int (max 1 (fromUnits + toUnits))
      in if fromUnits \<le> toUnits + 2 then 0
         else
           (let adjacentToTarget = findAdjacentTerritories ts to;
                adjacentPlayerTerritories =
                  length (filter (\<lambda>t. owner (ts ! t) = Player) adjacentToTarget);
                c1 = c0 + real adjacentPlayerTerritories * 0.3;
                c2 = (if includesStr (toLowerCase aiStrategy) (toLowerCase (name (ts ! to)))
                      then c1 * 1.5 else c1);
                c3 = (if includesStr (toLowerCase aiStrategy) ''reinforce'' \<or>
                         includesStr (toLowerCase aiStrategy) ''strengthen''
                      then c2 * 1.3 else c2)
            in c3))"

subsection \<open>executeAttack and executeTransfer\<close>

text \<open>
  \<open>rnd\<close> is the sequence of values \<^verbatim>\<open>Math.random()\<close> returns during the turn and \<open>k\<close> the
  number of values taken so far; the function returns the new state and the new count.
\<close>

definition executeAttack :: "Game \<Rightarrow> nat \<Rightarrow> nat \<Rightarrow> (nat \<Rightarrow> real) \<Rightarrow> nat \<Rightarrow> Game \<times> nat" where
  "executeAttack g from to rnd k =
     (let attackerUnits = getUnits g from;
          defenderUnits = getUnits g to
      in if attackerUnits \<le> 1 then (g, k)
         else
           (let attackStrength = \<lfloor>real_of_int (attackerUnits - 1) * (0.8 + rnd k * 0.4)\<rfloor>;
                defenseStrength = \<lfloor>real_of_int defenderUnits * (0.8 + rnd (k + 1) * 0.4)\<rfloor>;
                g1 = onMessage (MsgAIAttacks (getName g from) attackStrength
                                  (getName g to) defenseStrength) g
            in if attackStrength > defenseStrength then
                 (let remainingUnits =
                        \<lfloor>real_of_int (attackerUnits - 1) *
                           (real_of_int attackStrength /
                            real_of_int (attackStrength + defenseStrength))\<rfloor>;
                      g2 = setUnitsAt from 1 g1;
                      g3 = setOwnerAt to AI g2;
                      g4 = setUnitsAt to remainingUnits g3
                  in (onMessage (MsgAICaptured (getName g4 to) remainingUnits) g4, k + 2))
               else
                 (let attackerLosses = \<lfloor>real_of_int attackerUnits * 0.5\<rfloor>;
                      g2 = setUnitsAt from (max 1 (attackerUnits - attackerLosses)) g1;
                      defenderLosses = \<lfloor>real_of_int defenderUnits * 0.3\<rfloor>;
                      g3 = setUnitsAt to (max 1 (defenderUnits - defenderLosses)) g2
                  in (onMessage (MsgAIAttackFailed attackerLosses) g3, k + 2))))"

definition executeTransfer :: "Game \<Rightarrow> nat \<Rightarrow> nat \<Rightarrow> Game" where
  "executeTransfer g from to =
     (let unitsToTransfer = \<lfloor>real_of_int (getUnits g from - 1) / 2\<rfloor>
      in if unitsToTransfer > 0 then
           (let g1 = setUnitsAt from (getUnits g from - unitsToTransfer) g;
                g2 = setUnitsAt to (getUnits g1 to + unitsToTransfer) g1
            in onMessage (MsgAITransferred unitsToTransfer (getName g2 from) (getName g2 to)) g2)
         else g)"

subsection \<open>getAIStrategy\<close>

text \<open>
  The answer of the remote service is an input: \<open>Some content\<close> when the request returns a
  response of the expected format with that content, \<open>None\<close> when the request fails or
  the response has another format. The function catches every failure itself, so the
  \<^verbatim>\<open>catch\<close> around its call in \<^verbatim>\<open>executeTurn\<close> is never entered.
\<close>

definition getAIStrategy :: "string option \<Rightarrow> string" where
  "getAIStrategy reply =
     (case reply of
        Some content \<Rightarrow> content
      | None \<Rightarrow>
          ''Focus on expanding territory and reinforcing borders with player territories.'')"

subsection \<open>executeTurn\<close>

text \<open>The loop that fills \<^verbatim>\<open>possibleActions\<close>.\<close>

definition possibleActions :: "Territory list \<Rightarrow> string \<Rightarrow> AIAction list" where
  "possibleActions ts aiStrategy =
     (let aiTerritories = filter (\<lambda>t. owner (ts ! t) = AI) [0..<length ts]
      in concat (map (\<lambda>territory.
           if units (ts ! territory) \<le> 1 then []
           else map (\<lambda>adjacent.
                  if owner (ts ! adjacent) = AI then
                    \<lparr>atype = Transfer, afrom = territory, ato = adjacent,
                     confidence = evaluateTransfer ts territory adjacent aiStrategy\<rparr>
                  else
                    \<lparr>atype = Attack, afrom = territory, ato = adjacent,
                     confidence = evaluateAttack ts territory adjacent aiStrategy\<rparr>)
                (findAdjacentTerritories ts territory))
         aiTerritories))"

text \<open>
  \<^verbatim>\<open>possibleActions.sort((a, b) => b.confidence - a.confidence)\<close>:
  \<^verbatim>\<open>Array.prototype.sort\<close> is a stable sort, and the comparison function puts the action
  with the greater confidence first.
\<close>

definition sortActions :: "AIAction list \<Rightarrow> AIAction list" where
  "sortActions acts = sort_key (\<lambda>a. - confidence a) acts"

definition actionsToExecute :: "Territory list \<Rightarrow> string \<Rightarrow> AIAction list" where
  "actionsToExecute ts aiStrategy = take 3 (sortActions (possibleActions ts aiStrategy))"

text \<open>The loop over \<^verbatim>\<open>actionsToExecute\<close>.\<close>

fun executeActions :: "Game \<Rightarrow> AIAction list \<Rightarrow> (nat \<Rightarrow> real) \<Rightarrow> nat \<Rightarrow> Game \<times> nat" where
  "executeActions g [] rnd k = (g, k)"
| "executeActions g (action # rest) rnd k =
     (if atype action = Attack then
        (case executeAttack g (afrom action) (ato action) rnd k of
           (g', k') \<Rightarrow> executeActions g' rest rnd k')
      else executeActions (executeTransfer g (afrom action) (ato action)) rest rnd k)"

definition executeTurn :: "Game \<Rightarrow> string option \<Rightarrow> (nat \<Rightarrow> real) \<Rightarrow> Game" where
  "executeTurn g reply rnd =
     (let ts = territories g;
          aiTerritories = filter (\<lambda>t. owner (ts ! t) = AI) [0..<length ts]
      in if length aiTerritories = 0 then g
         else
           (let aiStrategy = getAIStrategy reply;
                g1 = onMessage (MsgAIStrategy aiStrategy) g
            in fst (executeActions g1 (actionsToExecute ts aiStrategy) rnd 0)))"

section \<open>Game.ts: endPlayerTurn\<close>

text \<open>
  The two reinforcement loops: every territory of the given owner gets
  \<^verbatim>\<open>setUnits(getUnits() + 1)\<close>.
\<close>

definition reinforce :: "Owner \<Rightarrow> Game \<Rightarrow> Game" where
  "reinforce who g =
     g\<lparr>territories :=
         map (\<lambda>t. if owner t = who then setUnits (units t + 1) t else t) (territories g)\<rparr>"

text \<open>
  The function is asynchronous. While it waits, \<^verbatim>\<open>currentTurn\<close> is \<^verbatim>\<open>'ai'\<close>, so a click
  returns at once, and the page disables the button that calls it: the body runs
  without interleaving.
\<close>

definition endPlayerTurn :: "Game \<Rightarrow> string option \<Rightarrow> (nat \<Rightarrow> real) \<Rightarrow> Game" where
  "endPlayerTurn g reply rnd =
     (if \<not> gameStarted (gameState g) \<or> gameOver (gameState g) then g
      else
        (let g1 = reinforce Player g;
             g2 = onMessage MsgTurnEnded g1;
             g3 = updateGameState g2;
             g4 = g3\<lparr>gameState := (gameState g3)\<lparr>currentTurn := AISide\<rparr>\<rparr>;
             g5 = onMessage MsgAIThinking g4;
             g6 = executeTurn g5 reply rnd;
             g7 = reinforce AI g6;
             g8 = g7\<lparr>gameState := (gameState g7)\<lparr>currentTurn := PlayerSide\<rparr>\<rparr>
         in updateGameState g8))"

section \<open>The reference definitions of the specification\<close>




section \<open>The calls of the page, the invariant and a finished game\<close>

text \<open>
  The calls that reach a \<^verbatim>\<open>Game\<close> after its constructor: the start button, a click that
  hits a territory, and the end-turn button, each with the inputs it reads from outside
  (random draws, the answer of the strategy service).
\<close>

datatype call =
    Start
  | Click nat real real
  | EndTurn "string option" "nat \<Rightarrow> real"

fun perform :: "Game \<Rightarrow> call \<Rightarrow> Game" where
  "perform g Start = start g"
| "perform g (Click territory r1 r2) = handleTerritoryClick g territory r1 r2"
| "perform g (EndTurn reply rnd) = endPlayerTurn g reply rnd"

definition unitsNonNeg :: "Territory list \<Rightarrow> bool" where
  "unitsNonNeg ts = list_all (\<lambda>t. 0 \<le> units t) ts"

text \<open>
  A started game in which the human side holds the three territories the automated side
  began with, after \<^verbatim>\<open>updateGameState\<close> has seen it: the game is over and the human side
  has won.
\<close>

definition wonGame :: Game where
  "wonGame =
     updateGameState
       ((start newGame)\<lparr>territories :=
          map (\<lambda>t. if owner t = AI then setOwner Player t else t)
            (territories (start newGame))\<rparr>)"



text \<open>
  A first turn of the human side that ends with a selection the automated side then
  captures. The human side gathers units on \<open>(1,1)\<close>, takes \<open>(2,1)\<close>, \<open>(2,2)\<close> and \<open>(3,2)\<close>,
  moves a unit back from \<open>(3,2)\<close>, selects \<open>(3,2)\<close> and ends the turn; the strategy service
  answers with the name of that territory.
\<close>

definition staleTrace :: "call list" where
  "staleTrace =
     [Start,
      Click 0 0 0, Click 4 0 0,
      Click 3 0 0, Click 4 0 0,
      Click 4 0 0, Click 9 (1 / 2) 0,
      Click 9 0 0, Click 10 (1 / 2) 0,
      Click 10 0 0, Click 15 (1 / 2) 0,
      Click 15 0 0, Click 10 0 0,
      Click 15 0 0,
      EndTurn (Some ''territory (3,2)'') (\<lambda>n. if n = 0 then 1 / 2 else 0)]"

text \<open>
  The situation in which \<^verbatim>\<open>Game.attackTerritory\<close> receives an attacker of the automated
  side: it is the human side's turn, the selected territory \<open>sel\<close> belongs to the automated
  side, and a click on the neutral territory \<open>target\<close> attacks from it and gives \<open>target\<close>
  to the human side.
\<close>

definition staleSelectionAttack :: "Game \<Rightarrow> nat \<Rightarrow> nat \<Rightarrow> bool" where
  "staleSelectionAttack g sel target \<longleftrightarrow>
     currentTurn (gameState g) = PlayerSide \<and>
     selectedTerritory g = Some sel \<and>
     owner (territories g ! sel) = AI \<and>
     owner (territories g ! target) = Neutral \<and>
     owner (territories (handleTerritoryClick g target (1 / 2) 0) ! target) = Player \<and>
     units (territories (handleTerritoryClick g target (1 / 2) 0) ! sel) = 1"

section \<open>Basic facts\<close>

subsection \<open>The store\<close>

lemma territories_setUnitsAt [simp]:
  "territories (setUnitsAt i n g) = (territories g)[i := setUnits n (territories g ! i)]"
  by (simp add: setUnitsAt_def)

lemma territories_setOwnerAt [simp]:
  "territories (setOwnerAt i ow g) = (territories g)[i := setOwner ow (territories g ! i)]"
  by (simp add: setOwnerAt_def)

lemma territories_setSelectedAt [simp]:
  "territories (setSelectedAt i b g) = (territories g)[i := setSelected b (territories g ! i)]"
  by (simp add: setSelectedAt_def)

lemma territories_onMessage [simp]: "territories (onMessage m g) = territories g"
  by (simp add: onMessage_def)

lemma territories_onStateChange [simp]: "territories (onStateChange g) = territories g"
  by (simp add: onStateChange_def)

lemma messages_setUnitsAt [simp]: "messages (setUnitsAt i n g) = messages g"
  by (simp add: setUnitsAt_def)

lemma messages_setOwnerAt [simp]: "messages (setOwnerAt i ow g) = messages g"
  by (simp add: setOwnerAt_def)

lemma messages_onMessage [simp]: "messages (onMessage m g) = messages g @ [m]"
  by (simp add: onMessage_def)

lemma messages_setSelectedAt [simp]: "messages (setSelectedAt i b g) = messages g"
  by (simp add: setSelectedAt_def)

lemma territories_updateGameState [simp]: "territories (updateGameState g) = territories g"
  by (simp add: updateGameState_def Let_def split: prod.splits)

subsection \<open>Arithmetic\<close>

lemma sqrt_less_7: "sqrt x < 7 \<longleftrightarrow> x < 49"
proof -
  have "sqrt 49 = 7" by (simp add: real_sqrt_unique)
  then show ?thesis using real_sqrt_less_iff[of x 49] by simp
qed

lemma floor_half: "\<lfloor>real_of_int u / 2\<rfloor> = u div 2"
  using floor_divide_of_int_eq[of u 2] by simp

lemma floor_half_pred: "\<lfloor>(real_of_int u - 1) / 2\<rfloor> = (u - 1) div 2"
  using floor_half[of "u - 1"] by simp



subsection \<open>The board of the constructor\<close>

lemma digit_chars:
  "char_of (48::nat) = CHR ''0''" "char_of (49::nat) = CHR ''1''" "char_of (50::nat) = CHR ''2''"
  "char_of (51::nat) = CHR ''3''" "char_of (52::nat) = CHR ''4''"
  by code_simp+

lemma boardTerritories_eq:
  "boardTerritories =
    [\<lparr>name = ''Territory (0,1)'', owner = Player, units = 3, selected = False,
        position = \<lparr>vx = - 10, vy = 0, vz = - 5\<rparr>\<rparr>,
     \<lparr>name = ''Territory (0,2)'', owner = Neutral, units = 0, selected = False,
        position = \<lparr>vx = - 10, vy = 0, vz = 0\<rparr>\<rparr>,
     \<lparr>name = ''Territory (0,3)'', owner = Neutral, units = 0, selected = False,
        position = \<lparr>vx = - 10, vy = 0, vz = 5\<rparr>\<rparr>,
     \<lparr>name = ''Territory (1,0)'', owner = Player, units = 3, selected = False,
        position = \<lparr>vx = - 5, vy = 0, vz = - 10\<rparr>\<rparr>,
     \<lparr>name = ''Territory (1,1)'', owner = Player, units = 3, selected = False,
        position = \<lparr>vx = - 5, vy = 0, vz = - 5\<rparr>\<rparr>,
     \<lparr>name = ''Territory (1,2)'', owner = Neutral, units = 0, selected = False,
        position = \<lparr>vx = - 5, vy = 0, vz = 0\<rparr>\<rparr>,
     \<lparr>name = ''Territory (1,3)'', owner = Neutral, units = 0, selected = False,
        position = \<lparr>vx = - 5, vy = 0, vz = 5\<rparr>\<rparr>,
     \<lparr>name = ''Territory (1,4)'', owner = Neutral, units = 0, selected = False,
        position = \<lparr>vx = - 5, vy = 0, vz = 10\<rparr>\<rparr>,
     \<lparr>name = ''Territory (2,0)'', owner = Neutral, units = 0, selected = False,
        position = \<lparr>vx = 0, vy = 0, vz = - 10\<rparr>\<rparr>,
     \<lparr>name = ''Territory (2,1)'', owner = Neutral, units = 0, selected = False,
        position = \<lparr>vx = 0, vy = 0, vz = - 5\<rparr>\<rparr>,
     \<lparr>name = ''Territory (2,2)'', owner = Neutral, units = 0, selected = False,
        position = \<lparr>vx = 0, vy = 0, vz = 0\<rparr>\<rparr>,
     \<lparr>name = ''Territory (2,3)'', owner = Neutral, units = 0, selected = False,
        position = \<lparr>vx = 0, vy = 0, vz = 5\<rparr>\<rparr>,
     \<lparr>name = ''Territory (2,4)'', owner = Neutral, units = 0, selected = False,
        position = \<lparr>vx = 0, vy = 0, vz = 10\<rparr>\<rparr>,
     \<lparr>name = ''Territory (3,0)'', owner = Neutral, units = 0, selected = False,
        position = \<lparr>vx = 5, vy = 0, vz = - 10\<rparr>\<rparr>,
     \<lparr>name = ''Territory (3,1)'', owner = Neutral, units = 0, selected = False,
        position = \<lparr>vx = 5, vy = 0, vz = - 5\<rparr>\<rparr>,
     \<lparr>name = ''Territory (3,2)'', owner = Neutral, units = 0, selected = False,
        position = \<lparr>vx = 5, vy = 0, vz = 0\<rparr>\<rparr>,
     \<lparr>name = ''Territory (3,3)'', owner = AI, units = 3, selected = False,
        position = \<lparr>vx = 5, vy = 0, vz = 5\<rparr>\<rparr>,
     \<lparr>name = ''Territory (3,4)'', owner = AI, units = 3, selected = False,
        position = \<lparr>vx = 5, vy = 0, vz = 10\<rparr>\<rparr>,
     \<lparr>name = ''Territory (4,1)'', owner = Neutral, units = 0, selected = False,
        position = \<lparr>vx = 10, vy = 0, vz = - 5\<rparr>\<rparr>,
     \<lparr>name = ''Territory (4,2)'', owner = Neutral, units = 0, selected = False,
        position = \<lparr>vx = 10, vy = 0, vz = 0\<rparr>\<rparr>,
     \<lparr>name = ''Territory (4,3)'', owner = AI, units = 3, selected = False,
        position = \<lparr>vx = 10, vy = 0, vz = 5\<rparr>\<rparr>]"
  by (simp add: boardTerritories_def gridSize_def boardCell_def upt_rec newTerritory_def
      setUnits_def setOwner_def spacing_def offset_def digit_chars)

lemma territories_newGame: "territories newGame = boardTerritories"
  by (simp add: newGame_def createGameBoard_def)

subsection \<open>Transfers and attacks on the store\<close>

lemma transferUnits_territories:
  assumes "from < length (territories g)" "to < length (territories g)" "from \<noteq> to"
    and "0 \<le> units (territories g ! from)" "0 \<le> units (territories g ! to)"
  shows "territories (transferUnits g from to) =
     (let m = \<lfloor>real_of_int (units (territories g ! from)) / 2\<rfloor> in
      if m > 0 then
        (territories g)[from := (territories g ! from)\<lparr>units := units (territories g ! from) - m\<rparr>,
                        to := (territories g ! to)\<lparr>units := units (territories g ! to) + m\<rparr>]
      else territories g)"
  using assms
  by (simp add: transferUnits_def Let_def getUnits_def setUnits_def floor_half max_def)

lemma executeTransfer_territories:
  assumes "from < length (territories g)" "to < length (territories g)" "from \<noteq> to"
    and "0 \<le> units (territories g ! from)" "0 \<le> units (territories g ! to)"
  shows "territories (executeTransfer g from to) =
     (let m = \<lfloor>real_of_int (units (territories g ! from) - 1) / 2\<rfloor> in
      if m > 0 then
        (territories g)[from := (territories g ! from)\<lparr>units := units (territories g ! from) - m\<rparr>,
                        to := (territories g ! to)\<lparr>units := units (territories g ! to) + m\<rparr>]
      else territories g)"
  using assms
  by (simp add: executeTransfer_def Let_def getUnits_def setUnits_def floor_half_pred max_def)


lemma executeAttack_territories:
  assumes "attacker < length (territories g)" "defender < length (territories g)"
    and "attacker \<noteq> defender"
  shows "territories (fst (executeAttack g attacker defender rnd k)) =
     (let a = territories g ! attacker; d = territories g ! defender in
      if units a \<le> 1 then territories g
      else
        (let A = \<lfloor>real_of_int (units a - 1) * (0.8 + rnd k * 0.4)\<rfloor>;
             D = \<lfloor>real_of_int (units d) * (0.8 + rnd (k + 1) * 0.4)\<rfloor>
         in if A > D then
              (territories g)[attacker := a\<lparr>units := 1\<rparr>,
                 defender := d\<lparr>owner := AI,
                   units := max 0 \<lfloor>real_of_int (units a - 1) *
                                    (real_of_int A / real_of_int (A + D))\<rfloor>\<rparr>]
            else
              (territories g)[attacker := a\<lparr>units := max 1 (units a - \<lfloor>real_of_int (units a) * 0.5\<rfloor>)\<rparr>,
                 defender := d\<lparr>units := max 1 (units d - \<lfloor>real_of_int (units d) * 0.3\<rfloor>)\<rparr>]))"
  using assms
  by (simp add: executeAttack_def Let_def getUnits_def setUnits_def setOwner_def)


lemma executeAttack_weak: "getUnits g from \<le> 1 \<Longrightarrow> executeAttack g from to rnd k = (g, k)"
  by (simp add: executeAttack_def)


lemma map_owner_update:
  "owner y = owner (xs ! i) \<Longrightarrow> map owner (xs[i := y]) = map owner xs"
  by (cases "i < length xs") (simp_all add: list_eq_iff_nth_eq nth_list_update)




text \<open>
  Code equations without the square root, so that adjacency and everything built on it
  can be evaluated.
\<close>

lemma isAdjacent_code [code]:
  "isAdjacent territory1 territory2 \<longleftrightarrow>
     (vx (position territory1) - vx (position territory2))\<^sup>2 +
     (vy (position territory1) - vy (position territory2))\<^sup>2 +
     (vz (position territory1) - vz (position territory2))\<^sup>2 < 49"
  by (simp add: isAdjacent_def distanceTo_def sqrt_less_7 Let_def)

lemma findAdjacentTerritories_code [code]:
  "findAdjacentTerritories allTerritories territory =
     filter (\<lambda>t. t \<noteq> territory \<and>
                  (vx (position (allTerritories ! territory)) - vx (position (allTerritories ! t)))\<^sup>2 +
                  (vy (position (allTerritories ! territory)) - vy (position (allTerritories ! t)))\<^sup>2 +
                  (vz (position (allTerritories ! territory)) - vz (position (allTerritories ! t)))\<^sup>2 < 49)
       [0..<length allTerritories]"
  by (auto simp add: findAdjacentTerritories_def distanceTo_def sqrt_less_7 Let_def
      intro!: filter_cong)

lemma adjacent_positions:
  "distanceTo \<lparr>vx = x1, vy = y1, vz = z1\<rparr> \<lparr>vx = x2, vy = y2, vz = z2\<rparr> < 7 \<longleftrightarrow>
     (x1 - x2)\<^sup>2 + (y1 - y2)\<^sup>2 + (z1 - z2)\<^sup>2 < 49"
  by (simp add: distanceTo_def sqrt_less_7)

section \<open>Attack resolution\<close>




text \<open>
  Such an attacker is reached from the new game by calls of the page alone:
  \<^verbatim>\<open>endPlayerTurn\<close> leaves \<^verbatim>\<open>selectedTerritory\<close> as it is, so a selected territory that the
  automated side captures during its turn is still the selection afterwards.
\<close>

lemma stale_selection_reachable: "staleSelectionAttack (foldl perform newGame staleTrace) 15 14"
  unfolding staleTrace_def by code_simp

section \<open>Transfers\<close>

text \<open>
  C3. For two distinct territories of the board with non-negative unit counts: a transfer
  started by the human side (\<^verbatim>\<open>Game.transferUnits\<close>) moves \<open>floor(source.units / 2)\<close>
  units and, when that amount is 0, mutates no territory and only reports it; a transfer
  started by the automated side (\<^verbatim>\<open>AIPlayer.executeTransfer\<close>) moves
  \<open>floor((source.units - 1) / 2)\<close> units and leaves the whole state as it is when that
  amount is 0 (the amount is never negative for a source that holds a unit). In both, the
  amount moved is taken from the source and added to the destination, no owner changes,
  and the two unit counts have the same sum before and after.
\<close>

theorem transfer_moves_and_conserves:
  assumes idx: "from < length (territories g)" "to < length (territories g)" "from \<noteq> to"
    and u0: "0 \<le> units (territories g ! from)" and d0: "0 \<le> units (territories g ! to)"
  shows
    "(let src = territories g ! from; dst = territories g ! to;
          moved = \<lfloor>real_of_int (units src) / 2\<rfloor>;
          g' = transferUnits g from to
      in 0 \<le> moved \<and>
         (if moved = 0 then g' = onMessage MsgNotEnoughTransfer g
          else territories g' =
                 (territories g)[from := src\<lparr>units := units src - moved\<rparr>,
                                 to := dst\<lparr>units := units dst + moved\<rparr>]) \<and>
         map owner (territories g') = map owner (territories g) \<and>
         units (territories g' ! from) + units (territories g' ! to) = units src + units dst) \<and>
     (let src = territories g ! from; dst = territories g ! to;
          moved = \<lfloor>real_of_int (units src - 1) / 2\<rfloor>;
          g' = executeTransfer g from to
      in (units src = 0 \<or> 0 \<le> moved) \<and>
         (if moved \<le> 0 then g' = g
          else territories g' =
                 (territories g)[from := src\<lparr>units := units src - moved\<rparr>,
                                 to := dst\<lparr>units := units dst + moved\<rparr>]) \<and>
         map owner (territories g') = map owner (territories g) \<and>
         units (territories g' ! from) + units (territories g' ! to) = units src + units dst)"
proof -
  have H: "let src = territories g ! from; dst = territories g ! to;
          moved = \<lfloor>real_of_int (units src) / 2\<rfloor>;
          g' = transferUnits g from to
      in 0 \<le> moved \<and>
         (if moved = 0 then g' = onMessage MsgNotEnoughTransfer g
          else territories g' =
                 (territories g)[from := src\<lparr>units := units src - moved\<rparr>,
                                 to := dst\<lparr>units := units dst + moved\<rparr>]) \<and>
         map owner (territories g') = map owner (territories g) \<and>
         units (territories g' ! from) + units (territories g' ! to) = units src + units dst"
  proof (cases "\<lfloor>real_of_int (units (territories g ! from)) / 2\<rfloor> > 0")
    case True
    then show ?thesis using idx u0
      by (simp add: Let_def transferUnits_territories[OF idx u0 d0] map_owner_update floor_half)
  next
    case False
    moreover have "0 \<le> \<lfloor>real_of_int (units (territories g ! from)) / 2\<rfloor>"
      using u0 by simp
    ultimately have "\<lfloor>real_of_int (units (territories g ! from)) / 2\<rfloor> = 0" by linarith
    then show ?thesis using u0
      by (simp add: Let_def transferUnits_def getUnits_def)
  qed
  have A: "let src = territories g ! from; dst = territories g ! to;
          moved = \<lfloor>real_of_int (units src - 1) / 2\<rfloor>;
          g' = executeTransfer g from to
      in (units src = 0 \<or> 0 \<le> moved) \<and>
         (if moved \<le> 0 then g' = g
          else territories g' =
                 (territories g)[from := src\<lparr>units := units src - moved\<rparr>,
                                 to := dst\<lparr>units := units dst + moved\<rparr>]) \<and>
         map owner (territories g') = map owner (territories g) \<and>
         units (territories g' ! from) + units (territories g' ! to) = units src + units dst"
  proof (cases "\<lfloor>real_of_int (units (territories g ! from) - 1) / 2\<rfloor> > 0")
    case True
    then have "0 \<le> \<lfloor>real_of_int (units (territories g ! from) - 1) / 2\<rfloor>" by linarith
    with True show ?thesis using idx u0
      by (simp add: Let_def executeTransfer_territories[OF idx u0 d0] map_owner_update)
  next
    case False
    have "units (territories g ! from) = 0 \<or>
          0 \<le> \<lfloor>real_of_int (units (territories g ! from) - 1) / 2\<rfloor>"
      using u0 by (cases "units (territories g ! from) = 0") simp_all
    then show ?thesis using False
      by (simp add: Let_def executeTransfer_def getUnits_def)
  qed
  show ?thesis using H A by simp
qed

theorem transfer_moves_and_conserves_witness:
  "territories (transferUnits newGame 0 4) =
     (territories newGame)[0 := (territories newGame ! 0)\<lparr>units := 2\<rparr>,
                           4 := (territories newGame ! 4)\<lparr>units := 4\<rparr>] \<and>
   territories (executeTransfer newGame 16 17) =
     (territories newGame)[16 := (territories newGame ! 16)\<lparr>units := 2\<rparr>,
                           17 := (territories newGame ! 17)\<lparr>units := 4\<rparr>] \<and>
   units (territories (transferUnits newGame 0 4) ! 0) +
     units (territories (transferUnits newGame 0 4) ! 4) = 3 + 3"
  using transfer_moves_and_conserves[of 0 newGame 4]
    transfer_moves_and_conserves[of 16 newGame 17]
  by (simp add: territories_newGame boardTerritories_eq Let_def)

section \<open>Adjacency\<close>




section \<open>An attack leaves a unit on both sides\<close>



section \<open>Unit counts are never negative\<close>

lemma unitsNonNeg_update:
  "unitsNonNeg ts \<Longrightarrow> (i < length ts \<Longrightarrow> 0 \<le> units x) \<Longrightarrow> unitsNonNeg (ts[i := x])"
proof (cases "i < length ts")
  case True
  assume "unitsNonNeg ts" "i < length ts \<Longrightarrow> 0 \<le> units x"
  then show ?thesis using True set_update_subset_insert[of ts i x]
    by (auto simp add: unitsNonNeg_def list_all_iff)
next
  case False
  assume "unitsNonNeg ts"
  then show ?thesis using False by (simp add: list_update_beyond)
qed

lemma unitsNonNeg_nth: "unitsNonNeg ts \<Longrightarrow> i < length ts \<Longrightarrow> 0 \<le> units (ts ! i)"
  by (simp add: unitsNonNeg_def list_all_length)

lemma unitsNonNeg_setUnitsAt:
  "unitsNonNeg (territories g) \<Longrightarrow> unitsNonNeg (territories (setUnitsAt i n g))"
  by (simp add: unitsNonNeg_update setUnits_def)

lemma unitsNonNeg_setOwnerAt:
  "unitsNonNeg (territories g) \<Longrightarrow> unitsNonNeg (territories (setOwnerAt i ow g))"
  by (simp add: unitsNonNeg_update setOwner_def unitsNonNeg_nth)

lemma unitsNonNeg_setSelectedAt:
  "unitsNonNeg (territories g) \<Longrightarrow> unitsNonNeg (territories (setSelectedAt i b g))"
  by (simp add: unitsNonNeg_update setSelected_def unitsNonNeg_nth)

lemmas unitsNonNeg_prims = unitsNonNeg_setUnitsAt unitsNonNeg_setOwnerAt unitsNonNeg_setSelectedAt

lemma unitsNonNeg_transferUnits:
  "unitsNonNeg (territories g) \<Longrightarrow> unitsNonNeg (territories (transferUnits g from to))"
  by (simp add: transferUnits_def Let_def unitsNonNeg_prims del: territories_setUnitsAt)

lemma unitsNonNeg_executeTransfer:
  "unitsNonNeg (territories g) \<Longrightarrow> unitsNonNeg (territories (executeTransfer g from to))"
  by (simp add: executeTransfer_def Let_def unitsNonNeg_prims del: territories_setUnitsAt)

lemma unitsNonNeg_attackTerritory:
  "unitsNonNeg (territories g) \<Longrightarrow>
     unitsNonNeg (territories (attackTerritory g attacker defender r1 r2))"
  by (simp add: attackTerritory_def Let_def unitsNonNeg_prims
      del: territories_setUnitsAt territories_setOwnerAt)

lemma unitsNonNeg_executeAttack:
  "unitsNonNeg (territories g) \<Longrightarrow>
     unitsNonNeg (territories (fst (executeAttack g from to rnd k)))"
  by (simp add: executeAttack_def Let_def unitsNonNeg_prims
      del: territories_setUnitsAt territories_setOwnerAt)

lemma territories_selectedTerritory_update [simp]:
  "territories (g\<lparr>selectedTerritory := x\<rparr>) = territories g"
  by simp

lemma unitsNonNeg_handleTerritoryClick:
  "unitsNonNeg (territories g) \<Longrightarrow>
     unitsNonNeg (territories (handleTerritoryClick g territory r1 r2))"
  by (simp add: handleTerritoryClick_def Let_def unitsNonNeg_prims unitsNonNeg_transferUnits
      unitsNonNeg_attackTerritory split: option.splits
      del: territories_setSelectedAt)

lemma territories_reinforce [simp]:
  "territories (reinforce who g) =
     map (\<lambda>t. if owner t = who then setUnits (units t + 1) t else t) (territories g)"
  by (simp add: reinforce_def)

lemma unitsNonNeg_reinforce:
  "unitsNonNeg (territories g) \<Longrightarrow> unitsNonNeg (territories (reinforce who g))"
  by (auto simp add: unitsNonNeg_def list_all_iff setUnits_def)

lemma unitsNonNeg_executeActions:
  "unitsNonNeg (territories g) \<Longrightarrow>
     unitsNonNeg (territories (fst (executeActions g acts rnd k)))"
proof (induction acts arbitrary: g k)
  case Nil
  then show ?case by simp
next
  case (Cons a acts)
  show ?case
  proof (cases "atype a = Attack")
    case True
    obtain g' k' where e: "executeAttack g (afrom a) (ato a) rnd k = (g', k')"
      by (cases "executeAttack g (afrom a) (ato a) rnd k")
    have "unitsNonNeg (territories g')"
      using unitsNonNeg_executeAttack[OF Cons.prems, of "afrom a" "ato a" rnd k] e by simp
    then show ?thesis using True e Cons.IH by simp
  next
    case False
    then show ?thesis
      using Cons.IH[OF unitsNonNeg_executeTransfer[OF Cons.prems]] by simp
  qed
qed

lemma unitsNonNeg_executeTurn:
  "unitsNonNeg (territories g) \<Longrightarrow> unitsNonNeg (territories (executeTurn g reply rnd))"
  by (simp add: executeTurn_def Let_def unitsNonNeg_executeActions)

lemma territories_gameState_update [simp]:
  "territories (g\<lparr>gameState := x\<rparr>) = territories g"
  by simp

lemma unitsNonNeg_endPlayerTurn:
  "unitsNonNeg (territories g) \<Longrightarrow> unitsNonNeg (territories (endPlayerTurn g reply rnd))"
  by (simp add: endPlayerTurn_def Let_def unitsNonNeg_reinforce unitsNonNeg_executeTurn
      del: territories_reinforce)

lemma unitsNonNeg_start:
  "unitsNonNeg (territories g) \<Longrightarrow> unitsNonNeg (territories (start g))"
  by (simp add: start_def Let_def)

lemma unitsNonNeg_newGame: "unitsNonNeg (territories newGame)"
  by (simp add: territories_newGame boardTerritories_eq unitsNonNeg_def)

lemma unitsNonNeg_perform:
  "unitsNonNeg (territories g) \<Longrightarrow> unitsNonNeg (territories (perform g c))"
  by (cases c) (simp_all add: unitsNonNeg_start unitsNonNeg_handleTerritoryClick
      unitsNonNeg_endPlayerTurn)

lemma unitsNonNeg_foldl:
  "unitsNonNeg (territories g) \<Longrightarrow> unitsNonNeg (territories (foldl perform g calls))"
  by (induction calls arbitrary: g) (simp_all add: unitsNonNeg_perform)

text \<open>
  C9. \<^verbatim>\<open>setUnits\<close> stores \<open>max(0, units)\<close>, which is at least 0 whatever it is given. The
  board the constructor builds has no negative unit count, and none appears after any
  sequence of calls (start, clicks, ended turns) on it. From any state without a negative
  unit count, every operation (start, a click, an ended turn, a reinforcement, a transfer
  or an attack by either side, a whole automated turn) gives such a state again.
\<close>

theorem units_never_negative:
  "units (setUnits n t) = max 0 n \<and> 0 \<le> units (setUnits n t) \<and>
   unitsNonNeg (territories newGame) \<and>
   unitsNonNeg (territories (foldl perform newGame calls)) \<and>
   (\<forall>i < length (territories (foldl perform newGame calls)).
      0 \<le> units (territories (foldl perform newGame calls) ! i)) \<and>
   (unitsNonNeg (territories g) \<longrightarrow>
      unitsNonNeg (territories (start g)) \<and>
      unitsNonNeg (territories (handleTerritoryClick g territory r1 r2)) \<and>
      unitsNonNeg (territories (endPlayerTurn g reply rnd)) \<and>
      unitsNonNeg (territories (reinforce who g)) \<and>
      unitsNonNeg (territories (transferUnits g from to)) \<and>
      unitsNonNeg (territories (executeTransfer g from to)) \<and>
      unitsNonNeg (territories (attackTerritory g from to r1 r2)) \<and>
      unitsNonNeg (territories (fst (executeAttack g from to rnd k))) \<and>
      unitsNonNeg (territories (executeTurn g reply rnd)))"
  by (simp add: setUnits_def unitsNonNeg_newGame unitsNonNeg_foldl unitsNonNeg_nth
      unitsNonNeg_start unitsNonNeg_handleTerritoryClick unitsNonNeg_endPlayerTurn
      unitsNonNeg_reinforce unitsNonNeg_transferUnits unitsNonNeg_executeTransfer
      unitsNonNeg_attackTerritory unitsNonNeg_executeAttack unitsNonNeg_executeTurn
      del: territories_reinforce)

theorem units_never_negative_witness:
  "unitsNonNeg (territories newGame) \<and>
   unitsNonNeg (territories (foldl perform newGame
      [Start, Click 4 0 0, Click 9 0 0, EndTurn None (\<lambda>n. 0)])) \<and>
   unitsNonNeg (territories (endPlayerTurn newGame None (\<lambda>n. 0))) \<and>
   units (setUnits (- 2) (territories newGame ! 0)) = 0"
  using units_never_negative[where g = newGame and reply = None and rnd = "\<lambda>n. 0"
      and calls = "[Start, Click 4 0 0, Click 9 0 0, EndTurn None (\<lambda>n. 0)]"
      and n = "- 2" and t = "territories newGame ! 0"]
  by (simp add: territories_newGame boardTerritories_eq unitsNonNeg_def)

section \<open>The end of the human turn\<close>


lemma updateGameState_currentTurn [simp]:
  "currentTurn (gameState (updateGameState g)) = currentTurn (gameState g)"
  by (simp add: updateGameState_def Let_def onMessage_def onStateChange_def split: prod.splits)




lemma territories_start [simp]: "territories (start g) = territories g"
  by (simp add: start_def Let_def)

lemma countLoop_board: "countLoop boardTerritories (0, 0, 0, 0) = (9, 9, 3, 3)"
  by (simp add: boardTerritories_eq)

lemma gameState_newGame:
  "gameState newGame =
     \<lparr>gameStarted = False, gameOver = False, winner = None, currentTurn = PlayerSide,
      playerUnits = 9, aiUnits = 9, playerTerritories = 3, aiTerritories = 3\<rparr>"
  by (simp add: newGame_def createGameBoard_def updateGameState_def countLoop_board
      newGameState_def onStateChange_def)

lemma gameState_start_newGame:
  "gameState (start newGame) =
     \<lparr>gameStarted = True, gameOver = False, winner = None, currentTurn = PlayerSide,
      playerUnits = 9, aiUnits = 9, playerTerritories = 3, aiTerritories = 3\<rparr>"
  by (simp add: start_def updateGameState_def territories_newGame countLoop_board
      gameState_newGame onStateChange_def onMessage_def)



section \<open>Clicks\<close>

lemma selected_simps [simp]:
  "selectedTerritory (setUnitsAt i n g) = selectedTerritory g"
  "selectedTerritory (setOwnerAt i ow g) = selectedTerritory g"
  "selectedTerritory (setSelectedAt i b g) = selectedTerritory g"
  "selectedTerritory (onMessage m g) = selectedTerritory g"
  "selectedTerritory (onStateChange g) = selectedTerritory g"
  by (simp_all add: setUnitsAt_def setOwnerAt_def setSelectedAt_def onMessage_def
      onStateChange_def)

lemma selectedTerritory_updateGameState [simp]:
  "selectedTerritory (updateGameState g) = selectedTerritory g"
  by (simp add: updateGameState_def Let_def split: prod.splits)

lemma selectedTerritory_newGame: "selectedTerritory newGame = None"
  by (simp add: newGame_def createGameBoard_def)

lemma messages_newGame: "messages newGame = []"
  by (simp add: newGame_def createGameBoard_def updateGameState_def countLoop_board
      onStateChange_def)

text \<open>
  C5 (as amended). On the human side's turn (the claim adds: while the game is not over;
  the function does not read that flag), a click on a territory of the board does one of
  six things. Nothing selected and the clicked territory owned by the human side: it
  becomes the selection, with a message. Nothing selected and the clicked territory not
  owned by the human side: nothing at all changes, and no message is emitted. The
  selected territory clicked again: the selection is cleared, with a message. Another
  territory that is not adjacent: only a message is emitted and the selection stays.
  An adjacent territory of the human side: a transfer from the selection to it, then the
  selection is cleared and the game state recomputed. An adjacent territory of another
  owner: an attack from the selection on it, then the same.
\<close>

theorem click_transition:
  assumes turn: "currentTurn (gameState g) = PlayerSide"
    and notOver: "\<not> gameOver (gameState g)"
    and idx: "clicked < length (territories g)"
  shows
    "(selectedTerritory g = None \<and> getOwner g clicked = Player \<longrightarrow>
        handleTerritoryClick g clicked r1 r2 =
          onMessage (MsgSelected (getName g clicked) (getUnits g clicked))
            (setSelectedAt clicked True (g\<lparr>selectedTerritory := Some clicked\<rparr>)) \<and>
        selectedTerritory (handleTerritoryClick g clicked r1 r2) = Some clicked) \<and>
     (selectedTerritory g = None \<and> getOwner g clicked \<noteq> Player \<longrightarrow>
        handleTerritoryClick g clicked r1 r2 = g) \<and>
     (selectedTerritory g = Some clicked \<longrightarrow>
        handleTerritoryClick g clicked r1 r2 =
          onMessage MsgDeselected ((setSelectedAt clicked False g)\<lparr>selectedTerritory := None\<rparr>) \<and>
        selectedTerritory (handleTerritoryClick g clicked r1 r2) = None) \<and>
     (selectedTerritory g = Some sel \<and> sel \<noteq> clicked \<and>
      \<not> isAdjacent (territories g ! sel) (territories g ! clicked) \<longrightarrow>
        handleTerritoryClick g clicked r1 r2 = onMessage MsgNotAdjacent g \<and>
        selectedTerritory (handleTerritoryClick g clicked r1 r2) = Some sel) \<and>
     (selectedTerritory g = Some sel \<and> sel \<noteq> clicked \<and>
      isAdjacent (territories g ! sel) (territories g ! clicked) \<and>
      getOwner g clicked = Player \<longrightarrow>
        handleTerritoryClick g clicked r1 r2 =
          updateGameState
            ((setSelectedAt sel False (transferUnits g sel clicked))\<lparr>selectedTerritory := None\<rparr>) \<and>
        selectedTerritory (handleTerritoryClick g clicked r1 r2) = None) \<and>
     (selectedTerritory g = Some sel \<and> sel \<noteq> clicked \<and>
      isAdjacent (territories g ! sel) (territories g ! clicked) \<and>
      getOwner g clicked \<noteq> Player \<longrightarrow>
        handleTerritoryClick g clicked r1 r2 =
          updateGameState
            ((setSelectedAt sel False (attackTerritory g sel clicked r1 r2))
               \<lparr>selectedTerritory := None\<rparr>) \<and>
        selectedTerritory (handleTerritoryClick g clicked r1 r2) = None)"
  using turn idx
  by (simp add: handleTerritoryClick_def Let_def getName_def getUnits_def getOwner_def
      setSelected_def)

theorem click_transition_witness:
  "currentTurn (gameState newGame) = PlayerSide \<and> \<not> gameOver (gameState newGame) \<and>
   selectedTerritory newGame = None \<and> getOwner newGame 4 = Player \<and>
   selectedTerritory (handleTerritoryClick newGame 4 0 0) = Some 4 \<and>
   handleTerritoryClick newGame 4 0 0 =
     onMessage (MsgSelected ''Territory (1,1)'' 3)
       (setSelectedAt 4 True (newGame\<lparr>selectedTerritory := Some 4\<rparr>)) \<and>
   handleTerritoryClick (handleTerritoryClick newGame 4 0 0) 16 0 0 =
     onMessage MsgNotAdjacent (handleTerritoryClick newGame 4 0 0) \<and>
   handleTerritoryClick (handleTerritoryClick newGame 4 0 0) 9 0 0 =
     updateGameState
       ((setSelectedAt 4 False (attackTerritory (handleTerritoryClick newGame 4 0 0) 4 9 0 0))
          \<lparr>selectedTerritory := None\<rparr>)"
proof -
  have g1: "handleTerritoryClick newGame 4 0 0 =
     onMessage (MsgSelected ''Territory (1,1)'' 3)
       (setSelectedAt 4 True (newGame\<lparr>selectedTerritory := Some 4\<rparr>))"
    and s1: "selectedTerritory (handleTerritoryClick newGame 4 0 0) = Some 4"
    using click_transition[of newGame 4 0 0 0]
    by (simp_all add: gameState_newGame selectedTerritory_newGame territories_newGame
      boardTerritories_eq getOwner_def getName_def getUnits_def)
  have t1: "currentTurn (gameState (handleTerritoryClick newGame 4 0 0)) = PlayerSide"
    "\<not> gameOver (gameState (handleTerritoryClick newGame 4 0 0))"
    by (simp_all add: g1 onMessage_def setSelectedAt_def gameState_newGame)
  have a: "\<not> isAdjacent (territories (handleTerritoryClick newGame 4 0 0) ! 4)
                (territories (handleTerritoryClick newGame 4 0 0) ! 16)"
      "isAdjacent (territories (handleTerritoryClick newGame 4 0 0) ! 4)
                (territories (handleTerritoryClick newGame 4 0 0) ! 9)"
      "getOwner (handleTerritoryClick newGame 4 0 0) 9 \<noteq> Player"
    by (simp_all add: g1 territories_newGame boardTerritories_eq isAdjacent_def
        adjacent_positions setSelected_def getOwner_def)
  have l: "16 < length (territories (handleTerritoryClick newGame 4 0 0))"
     "9 < length (territories (handleTerritoryClick newGame 4 0 0))"
    by (simp_all add: g1 territories_newGame boardTerritories_eq)
  show ?thesis
    using click_transition[OF t1 l(1), of 0 0 4] click_transition[OF t1 l(2), of 0 0 4]
      s1 a g1
    by (simp add: gameState_newGame selectedTerritory_newGame territories_newGame
        boardTerritories_eq getOwner_def)
qed

text \<open>
  C5 as stated fails in its second case: on the new board, with nothing selected, a click
  on the neutral territory \<open>(0,2)\<close> returns the state unchanged; no message is emitted.
\<close>

theorem click_unowned_counterexample:
  "currentTurn (gameState newGame) = PlayerSide \<and> \<not> gameOver (gameState newGame) \<and>
   selectedTerritory newGame = None \<and> getOwner newGame 1 = Neutral \<and>
   handleTerritoryClick newGame 1 0 0 = newGame \<and>
   messages (handleTerritoryClick newGame 1 0 0) = []"
  by (simp add: handleTerritoryClick_def gameState_newGame selectedTerritory_newGame
      territories_newGame boardTerritories_eq getOwner_def messages_newGame)

section \<open>After the game is over\<close>

lemma territories_wonGame:
  "territories wonGame =
     map (\<lambda>t. if owner t = AI then setOwner Player t else t) boardTerritories"
  by (simp add: wonGame_def territories_newGame)

lemma countLoop_wonGame:
  "countLoop (map (\<lambda>t. if owner t = AI then setOwner Player t else t) boardTerritories)
     (0, 0, 0, 0) = (18, 0, 6, 0)"
  by (simp add: boardTerritories_eq setOwner_def)

lemma gameState_wonGame:
  "gameState wonGame =
     \<lparr>gameStarted = True, gameOver = True, winner = Some PlayerSide, currentTurn = PlayerSide,
      playerUnits = 18, aiUnits = 0, playerTerritories = 6, aiTerritories = 0\<rparr>"
  by (simp add: wonGame_def updateGameState_def territories_newGame countLoop_wonGame
      gameState_start_newGame onStateChange_def onMessage_def)

lemma selectedTerritory_wonGame: "selectedTerritory wonGame = None"
  by (simp add: wonGame_def start_def Let_def selectedTerritory_newGame)

lemma endPlayerTurn_after_game_over:
  "gameOver (gameState g) \<Longrightarrow> endPlayerTurn g reply rnd = g"
  by (simp add: endPlayerTurn_def)

text \<open>
  C1 fails on the code. After the game is over \<^verbatim>\<open>endPlayerTurn\<close> changes nothing, as
  claimed (\<open>endPlayerTurn_after_game_over\<close>), but clicks still act:
  \<^verbatim>\<open>handleTerritoryClick\<close> tests the turn and never the game-over flag. In the finished
  game \<open>wonGame\<close> (game over, the human side has won) a click on \<open>(0,1)\<close> selects it; a
  click on its neighbour \<open>(1,1)\<close> then moves a unit; and with \<open>(1,1)\<close> selected a click on
  the neutral \<open>(2,1)\<close> attacks and captures it.
\<close>

theorem clicks_after_game_over:
  "gameOver (gameState wonGame) \<and> winner (gameState wonGame) = Some PlayerSide \<and>
   units (territories wonGame ! 0) = 3 \<and> units (territories wonGame ! 4) = 3 \<and>
   owner (territories wonGame ! 9) = Neutral \<and>
   selectedTerritory (handleTerritoryClick wonGame 0 0 0) = Some 0 \<and>
   selected (territories (handleTerritoryClick wonGame 0 0 0) ! 0) \<and>
   units (territories (handleTerritoryClick (handleTerritoryClick wonGame 0 0 0) 4 0 0) ! 0) = 2 \<and>
   units (territories (handleTerritoryClick (handleTerritoryClick wonGame 0 0 0) 4 0 0) ! 4) = 4 \<and>
   owner (territories (handleTerritoryClick (handleTerritoryClick wonGame 4 0 0) 9 0 0) ! 9) = Player \<and>
   units (territories (handleTerritoryClick (handleTerritoryClick wonGame 4 0 0) 9 0 0) ! 4) = 1"
  by (simp add: handleTerritoryClick_def gameState_wonGame
      selectedTerritory_wonGame territories_wonGame boardTerritories_eq getOwner_def
      getName_def getUnits_def isAdjacent_def adjacent_positions setOwner_def setSelected_def
      setUnits_def transferUnits_def attackTerritory_def Let_def onMessage_def setSelectedAt_def
      setUnitsAt_def setOwnerAt_def)

section \<open>The automated turn\<close>

lemma executeActions_append:
  "executeActions g (xs @ ys) rnd k =
     (case executeActions g xs rnd k of (g', k') \<Rightarrow> executeActions g' ys rnd k')"
  by (induction xs arbitrary: g k) (simp_all split: prod.splits)


lemma possibleActions_sources:
  "a \<in> set (possibleActions ts s) \<Longrightarrow>
     afrom a < length ts \<and> owner (ts ! afrom a) = AI \<and> 1 < units (ts ! afrom a)"
  by (auto simp add: possibleActions_def Let_def split: if_splits)




lemma sortActions_mset: "mset (sortActions acts) = mset acts"
  by (simp add: sortActions_def)

lemma possibleActions_board:
  "possibleActions boardTerritories [] =
    [\<lparr>atype = Attack, afrom = 16, ato = 11, confidence = 2\<rparr>,
     \<lparr>atype = Attack, afrom = 16, ato = 15, confidence = 2\<rparr>,
     \<lparr>atype = Transfer, afrom = 16, ato = 17, confidence = 0\<rparr>,
     \<lparr>atype = Transfer, afrom = 16, ato = 20, confidence = 0\<rparr>,
     \<lparr>atype = Attack, afrom = 17, ato = 12, confidence = 2\<rparr>,
     \<lparr>atype = Transfer, afrom = 17, ato = 16, confidence = 0\<rparr>,
     \<lparr>atype = Transfer, afrom = 20, ato = 16, confidence = 0\<rparr>,
     \<lparr>atype = Attack, afrom = 20, ato = 19, confidence = 2\<rparr>]"
  by (simp add: possibleActions_def boardTerritories_eq Let_def upt_rec
      findAdjacentTerritories_def adjacent_positions evaluateAttack_def evaluateTransfer_def
      toLowerCase_def)

lemma actionsToExecute_board:
  "actionsToExecute boardTerritories [] =
    [\<lparr>atype = Attack, afrom = 16, ato = 11, confidence = 2\<rparr>,
     \<lparr>atype = Attack, afrom = 16, ato = 15, confidence = 2\<rparr>,
     \<lparr>atype = Attack, afrom = 17, ato = 12, confidence = 2\<rparr>]"
  by (simp add: actionsToExecute_def sortActions_def possibleActions_board)












text \<open>
  C7. When the automated turn comes to an attack whose source holds at most one unit at
  that moment, whatever the earlier actions of the turn did to it, \<^verbatim>\<open>executeAttack\<close>
  returns the state as it is (no unit count or owner changes, no message, no random draw)
  and the turn goes on with the remaining actions. Every candidate is created with a
  source that the automated side owns and that holds more than one unit.
\<close>

theorem automated_attack_needs_two_units:
  assumes acts: "actionsToExecute (territories g) (getAIStrategy reply) = earlier @ a # rest"
    and att: "atype a = Attack"
    and run: "executeActions (onMessage (MsgAIStrategy (getAIStrategy reply)) g) earlier rnd 0 = (gm, km)"
    and weak: "units (territories gm ! afrom a) \<le> 1"
  shows "executeAttack gm (afrom a) (ato a) rnd km = (gm, km) \<and>
         executeTurn g reply rnd = fst (executeActions gm rest rnd km) \<and>
         (\<forall>b \<in> set (possibleActions (territories g) (getAIStrategy reply)).
            owner (territories g ! afrom b) = AI \<and> 1 < units (territories g ! afrom b))"
proof -
  have skip: "executeAttack gm (afrom a) (ato a) rnd km = (gm, km)"
    using weak by (simp add: executeAttack_weak getUnits_def)
  have "a \<in> set (sortActions (possibleActions (territories g) (getAIStrategy reply)))"
    using acts in_set_takeD[of a 3] by (simp add: actionsToExecute_def)
  then have "a \<in> set (possibleActions (territories g) (getAIStrategy reply))"
    using sortActions_mset[of "possibleActions (territories g) (getAIStrategy reply)"]
    by (metis mset_eq_setD)
  then have "afrom a < length (territories g)" "owner (territories g ! afrom a) = AI"
    using possibleActions_sources by blast+
  then have ne: "filter (\<lambda>t. owner (territories g ! t) = AI) [0..<length (territories g)] \<noteq> []"
    by (auto simp add: filter_empty_conv)
  have "executeTurn g reply rnd =
      fst (executeActions (onMessage (MsgAIStrategy (getAIStrategy reply)) g) (earlier @ a # rest) rnd 0)"
    using ne acts by (simp add: executeTurn_def Let_def)
  also have "\<dots> = fst (executeActions gm rest rnd km)"
    using run att skip by (simp add: executeActions_append)
  finally show ?thesis using skip possibleActions_sources by blast
qed

theorem automated_attack_needs_two_units_witness:
  "actionsToExecute (territories newGame) (getAIStrategy (Some [])) =
     [\<lparr>atype = Attack, afrom = 16, ato = 11, confidence = 2\<rparr>] @
     \<lparr>atype = Attack, afrom = 16, ato = 15, confidence = 2\<rparr> #
     [\<lparr>atype = Attack, afrom = 17, ato = 12, confidence = 2\<rparr>] \<and>
   units (territories (fst (executeActions (onMessage (MsgAIStrategy []) newGame)
       [\<lparr>atype = Attack, afrom = 16, ato = 11, confidence = 2\<rparr>] (\<lambda>n. 0) 0)) ! 16) = 1 \<and>
   executeTurn newGame (Some []) (\<lambda>n. 0) =
     fst (executeActions
       (fst (executeActions (onMessage (MsgAIStrategy []) newGame)
          [\<lparr>atype = Attack, afrom = 16, ato = 11, confidence = 2\<rparr>] (\<lambda>n. 0) 0))
       [\<lparr>atype = Attack, afrom = 17, ato = 12, confidence = 2\<rparr>] (\<lambda>n. 0)
       (snd (executeActions (onMessage (MsgAIStrategy []) newGame)
          [\<lparr>atype = Attack, afrom = 16, ato = 11, confidence = 2\<rparr>] (\<lambda>n. 0) 0)))"
proof -
  let ?g1 = "onMessage (MsgAIStrategy []) newGame"
  let ?a1 = "\<lparr>atype = Attack, afrom = 16, ato = 11, confidence = 2\<rparr>"
  let ?a2 = "\<lparr>atype = Attack, afrom = 16, ato = 15, confidence = 2\<rparr>"
  let ?a3 = "\<lparr>atype = Attack, afrom = 17, ato = 12, confidence = 2\<rparr>"
  have acts: "actionsToExecute (territories newGame) (getAIStrategy (Some [])) = [?a1] @ ?a2 # [?a3]"
    by (simp add: territories_newGame getAIStrategy_def actionsToExecute_board)
  have att: "atype ?a2 = Attack" by simp
  have run: "executeActions (onMessage (MsgAIStrategy (getAIStrategy (Some []))) newGame)
      [?a1] (\<lambda>n. 0) 0 =
      (fst (executeActions ?g1 [?a1] (\<lambda>n. 0) 0), snd (executeActions ?g1 [?a1] (\<lambda>n. 0) 0))"
    by (simp add: getAIStrategy_def)
  have e: "fst (executeActions ?g1 [?a1] (\<lambda>n. 0) 0) = fst (executeAttack ?g1 16 11 (\<lambda>n. 0) 0)"
    by (simp split: prod.splits)
  have u: "units (territories (fst (executeActions ?g1 [?a1] (\<lambda>n. 0) 0)) ! 16) = 1"
    unfolding e
    by (simp add: executeAttack_territories territories_newGame boardTerritories_eq)
  then have weak: "units (territories (fst (executeActions ?g1 [?a1] (\<lambda>n. 0) 0)) ! afrom ?a2) \<le> 1"
    by simp
  have r: "executeTurn newGame (Some []) (\<lambda>n. 0) =
     fst (executeActions (fst (executeActions ?g1 [?a1] (\<lambda>n. 0) 0)) [?a3] (\<lambda>n. 0)
       (snd (executeActions ?g1 [?a1] (\<lambda>n. 0) 0)))"
    using automated_attack_needs_two_units[OF acts att run weak] by (rule conjunct2[THEN conjunct1])
  show ?thesis
    using acts u r by (intro conjI)
qed

end
